theory Spec2Isabelle
  imports Main
begin

section \<open>JavaScript values\<close>

text \<open>
  The handlers of \<^verbatim>\<open>functions/tips/index.js\<close> use numbers, strings, template
  literals and \<^verbatim>\<open>Error\<close> objects. A JavaScript exception is a value of
  \<open>js_error\<close>; a function that may throw returns \<open>js_error + 'a\<close>.
\<close>

datatype js_error =
  Error string        \<comment> \<open>\<^verbatim>\<open>new Error(message)\<close>\<close>
| TypeError string

fun message :: "js_error \<Rightarrow> string" where
  "message (Error m) = m"
| "message (TypeError m) = m"

text \<open>
  \<^verbatim>\<open>`${err}`\<close> of an error object is its name, a colon and its message.
\<close>

fun error_toString :: "js_error \<Rightarrow> string" where
  "error_toString (Error m) = ''Error: '' @ m"
| "error_toString (TypeError m) = ''TypeError: '' @ m"

text \<open>
  Integral numbers print in decimal. All numbers printed by the handlers are
  integers below \<open>10^21\<close>, where JavaScript uses no exponent.
\<close>

definition digit_char :: "nat \<Rightarrow> char" where
  "digit_char d = ''0123456789'' ! (d mod 10)"

fun nat_toString :: "nat \<Rightarrow> string" where
  "nat_toString n =
     (if n < 10 then [digit_char n]
      else nat_toString (n div 10) @ [digit_char (n mod 10)])"

declare nat_toString.simps [simp del]

definition int_toString :: "int \<Rightarrow> string" where
  "int_toString i =
     (if i < 0 then CHR ''-'' # nat_toString (nat (- i)) else nat_toString (nat i))"

text \<open>
  \<^verbatim>\<open>Date.parse\<close> yields an integral number of milliseconds or \<^verbatim>\<open>NaN\<close>;
  \<^verbatim>\<open>Date.now()\<close> is integral. Both are below \<open>2^53\<close> in magnitude, and so is
  their difference, so integer arithmetic is exact for them.
\<close>

datatype number = Num int | NaN

fun number_minus :: "number \<Rightarrow> number \<Rightarrow> number" where
  "number_minus (Num a) (Num b) = Num (a - b)"
| "number_minus _ _ = NaN"

text \<open>\<^verbatim>\<open>a > b\<close>: every comparison with \<^verbatim>\<open>NaN\<close> is false.\<close>

fun number_gt :: "number \<Rightarrow> number \<Rightarrow> bool" where
  "number_gt (Num a) (Num b) = (a > b)"
| "number_gt _ _ = False"

fun number_toString :: "number \<Rightarrow> string" where
  "number_toString (Num i) = int_toString i"
| "number_toString NaN = ''NaN''"

text \<open>
  \<^verbatim>\<open>Array.prototype.reduce\<close> without an initial value: the first element
  starts the accumulator, and an empty array throws a \<^verbatim>\<open>TypeError\<close>.
\<close>

fun reduce :: "('a \<Rightarrow> 'a \<Rightarrow> 'a) \<Rightarrow> 'a list \<Rightarrow> js_error + 'a" where
  "reduce f [] = Inl (TypeError ''Reduce of empty array with no initial value'')"
| "reduce f (x # xs) = Inr (foldl f x xs)"

section \<open>The computations\<close>

definition lightComputation :: "js_error + int" where
  "lightComputation =
     (let numbers = [1, 2, 3, 4, 5, 6, 7, 8, 9]
      in reduce (\<lambda>t x. t + x) numbers)"

definition heavyComputation :: "js_error + int" where
  "heavyComputation =
     (let numbers = [1, 2, 3, 4, 5, 6, 7, 8, 9]
      in reduce (\<lambda>t x. t * x) numbers)"

definition functionSpecificComputation :: "js_error + int" where
  "functionSpecificComputation = heavyComputation"

definition fileWideComputation :: "js_error + int" where
  "fileWideComputation = lightComputation"

section \<open>The execution environment\<close>

text \<open>
  The module's top-level bindings live as long as the execution environment. The
  record \<open>instance\<close> holds them. \<open>lazyGlobal\<close> is declared without a value:
  \<open>None\<close> is \<^verbatim>\<open>undefined\<close>. The field \<open>computed\<close> is a log of the calls of
  \<^verbatim>\<open>heavyComputation\<close> and \<^verbatim>\<open>lightComputation\<close>, each with the variable
  its result initialises, in the order they run.
\<close>

datatype computation = HeavyComputation | LightComputation

record http_agent =
  keepAlive :: bool

record "instance" =
  instanceVar :: int
  nonLazyGlobal :: int
  lazyGlobal :: "int option"
  agent :: http_agent
  computed :: "(string \<times> computation) list"

text \<open>
  Loading the module, at cold start: the top-level statements in source order.
\<close>

definition cold_start :: "js_error + instance" where
  "cold_start =
     (case heavyComputation of
        Inl e \<Rightarrow> Inl e
      | Inr h \<Rightarrow>
         (case fileWideComputation of
            Inl e \<Rightarrow> Inl e
          | Inr l \<Rightarrow>
             Inr \<lparr> instanceVar = h,
                   nonLazyGlobal = l,
                   lazyGlobal = None,
                   agent = \<lparr> keepAlive = True \<rparr>,
                   computed = [(''instanceVar'', HeavyComputation),
                               (''nonLazyGlobal'', LightComputation)] \<rparr>))"

section \<open>Scopes and lazy globals\<close>

text \<open>
  An HTTP handler here ignores its request and ends the response with a body; the
  model returns the environment after the call and that body.
\<close>

definition scopeDemo :: "instance \<Rightarrow> js_error + instance \<times> string" where
  "scopeDemo env =
     (case lightComputation of
        Inl e \<Rightarrow> Inl e
      | Inr functionVar \<Rightarrow>
          Inr (env \<lparr> computed := computed env @ [(''functionVar'', LightComputation)] \<rparr>,
               ''Per instance: '' @ int_toString (instanceVar env) @
               '', per function: '' @ int_toString functionVar))"

text \<open>
  \<^verbatim>\<open>a || b\<close> evaluates \<^verbatim>\<open>b\<close> only when \<^verbatim>\<open>a\<close> is falsy: \<^verbatim>\<open>undefined\<close> and
  the number \<open>0\<close> are falsy.
\<close>

fun truthy :: "int option \<Rightarrow> bool" where
  "truthy None = False"
| "truthy (Some n) = (n \<noteq> 0)"

fun global_toString :: "int option \<Rightarrow> string" where
  "global_toString None = ''undefined''"
| "global_toString (Some n) = int_toString n"

definition lazyGlobals :: "instance \<Rightarrow> js_error + instance \<times> string" where
  "lazyGlobals env =
     (case (if truthy (lazyGlobal env) then Inr env
            else (case functionSpecificComputation of
                    Inl e \<Rightarrow> Inl e
                  | Inr v \<Rightarrow>
                      Inr (env \<lparr> lazyGlobal := Some v,
                                 computed := computed env @ [(''lazyGlobal'', HeavyComputation)] \<rparr>)))
      of Inl e \<Rightarrow> Inl e
       | Inr env' \<Rightarrow>
           Inr (env',
                ''Lazy global: '' @ global_toString (lazyGlobal env') @
                '', non-lazy global: '' @ int_toString (nonLazyGlobal env')))"

text \<open>
  A sequence of invocations on one environment. The bodies sent are collected in
  order; an exception ends the run.
\<close>

datatype invocation = ScopeDemo | LazyGlobals

fun invoke :: "invocation \<Rightarrow> instance \<Rightarrow> js_error + instance \<times> string" where
  "invoke ScopeDemo env = scopeDemo env"
| "invoke LazyGlobals env = lazyGlobals env"

fun invoke_all :: "instance \<Rightarrow> invocation list \<Rightarrow> js_error + instance \<times> string list" where
  "invoke_all env [] = Inr (env, [])"
| "invoke_all env (i # is) =
     (case invoke i env of
        Inl e \<Rightarrow> Inl e
      | Inr (env', body) \<Rightarrow>
         (case invoke_all env' is of
            Inl e \<Rightarrow> Inl e
          | Inr (env'', bodies) \<Rightarrow> Inr (env'', body # bodies)))"

definition serve :: "invocation list \<Rightarrow> js_error + instance \<times> string list" where
  "serve is = (case cold_start of Inl e \<Rightarrow> Inl e | Inr env \<Rightarrow> invoke_all env is)"

definition computed_for :: "string \<Rightarrow> instance \<Rightarrow> nat" where
  "computed_for v env = length (filter (\<lambda>c. fst c = v) (computed env))"

section \<open>HTTP agents\<close>

text \<open>
  The options object passed to \<^verbatim>\<open>http.request\<close>. \<open>use_agent\<close> is the
  \<^verbatim>\<open>agent\<close> property: \<open>None\<close> when the object has none.
\<close>

record request_options =
  host :: string
  port :: nat
  path :: string
  request_method :: string
  use_agent :: "http_agent option"

text \<open>
  What the transport does after the request is sent, as the events the handler has
  listeners for: \<open>Response\<close> runs the callback given to \<^verbatim>\<open>http.request\<close>,
  \<open>Data\<close> and \<open>End\<close> are the \<^verbatim>\<open>'data'\<close> and \<^verbatim>\<open>'end'\<close> events of the inner
  response, \<open>Request_error\<close> is the \<^verbatim>\<open>'error'\<close> event of the request.
\<close>

datatype transport_event =
  Response
| Data string
| End
| Request_error js_error

text \<open>
  The state of one invocation: \<open>rawData\<close> is the buffer of the response callback
  (\<open>None\<close> until that callback has run: before it, nothing listens for data or
  end), \<open>sent\<close> the calls of \<^verbatim>\<open>res.status(code).send(body)\<close> in order, \<open>issued\<close>
  the requests given to \<^verbatim>\<open>http.request\<close>.
\<close>

record exchange =
  rawData :: "string option"
  sent :: "(nat \<times> string) list"
  issued :: "request_options list"

fun ephemeralAgent_on :: "transport_event \<Rightarrow> exchange \<Rightarrow> exchange" where
  "ephemeralAgent_on Response x = x \<lparr> rawData := Some [] \<rparr>"
| "ephemeralAgent_on (Data chunk) x =
     (case rawData x of
        None \<Rightarrow> x
      | Some raw \<Rightarrow> x \<lparr> rawData := Some (raw @ chunk) \<rparr>)"
| "ephemeralAgent_on End x =
     (case rawData x of
        None \<Rightarrow> x
      | Some raw \<Rightarrow> x \<lparr> sent := sent x @ [(200, ''Data: '' @ raw)] \<rparr>)"
| "ephemeralAgent_on (Request_error e) x =
     x \<lparr> sent := sent x @ [(500, ''Error: '' @ message e)] \<rparr>"

definition ephemeralAgent :: "transport_event list \<Rightarrow> exchange" where
  "ephemeralAgent transport =
     foldl (\<lambda>x ev. ephemeralAgent_on ev x)
       \<lparr> rawData = None, sent = [],
         issued = [\<lparr> host = ''<HOST>'', port = 80, path = ''<PATH>'',
                     request_method = ''GET'', use_agent = None \<rparr>] \<rparr>
       transport"

fun cachedAgent_on :: "transport_event \<Rightarrow> exchange \<Rightarrow> exchange" where
  "cachedAgent_on Response x = x \<lparr> rawData := Some [] \<rparr>"
| "cachedAgent_on (Data chunk) x =
     (case rawData x of
        None \<Rightarrow> x
      | Some raw \<Rightarrow> x \<lparr> rawData := Some (raw @ chunk) \<rparr>)"
| "cachedAgent_on End x =
     (case rawData x of
        None \<Rightarrow> x
      | Some raw \<Rightarrow> x \<lparr> sent := sent x @ [(200, ''Data: '' @ raw)] \<rparr>)"
| "cachedAgent_on (Request_error e) x =
     x \<lparr> sent := sent x @ [(500, ''Error: '' @ message e)] \<rparr>"

definition cachedAgent :: "instance \<Rightarrow> transport_event list \<Rightarrow> exchange" where
  "cachedAgent env transport =
     foldl (\<lambda>x ev. cachedAgent_on ev x)
       \<lparr> rawData = None, sent = [],
         issued = [\<lparr> host = [], port = 80, path = [],
                     request_method = ''GET'', use_agent = Some (agent env) \<rparr>] \<rparr>
       transport"

section \<open>Retries\<close>

text \<open>
  A background function receives an event and, in the callback style, a completion
  callback. What it does is the list of its console lines and callback calls, in
  order; \<open>Callback None\<close> is \<^verbatim>\<open>callback()\<close>, \<open>Callback (Some err)\<close> is
  \<^verbatim>\<open>callback(err)\<close>.
\<close>

record event =
  timestamp :: string

datatype effect =
  Console_log string
| Console_error string
| Callback "js_error option"

text \<open>\<^verbatim>\<open>`${event}`\<close> of a plain object.\<close>

definition event_toString :: "event \<Rightarrow> string" where
  "event_toString event = ''[object Object]''"

text \<open>
  The statement under the comment \<^verbatim>\<open>Do what the function is supposed to do\<close>.
\<close>

definition main_work :: "event \<Rightarrow> number \<Rightarrow> effect" where
  "main_work event eventAge =
     Console_log (''Processing event '' @ event_toString event @
                  '' with age '' @ number_toString eventAge @ '' ms.'')"

text \<open>
  \<^verbatim>\<open>Date.now()\<close> and \<^verbatim>\<open>Date.parse\<close> are the first two arguments.
\<close>

definition avoidInfiniteRetries :: "int \<Rightarrow> (string \<Rightarrow> number) \<Rightarrow> event \<Rightarrow> effect list" where
  "avoidInfiniteRetries Date_now Date_parse event =
     (let eventAge = number_minus (Num Date_now) (Date_parse (timestamp event));
          eventMaxAge = Num 10000
      in if number_gt eventAge eventMaxAge
         then [Console_log (''Dropping event '' @ event_toString event @
                            '' with age '' @ number_toString eventAge @ '' ms.''),
               Callback None]
         else [main_work event eventAge])"

text \<open>
  A promise that is already settled. \<open>retryPromise\<close> throws (\<open>Inl\<close>) or returns a
  promise (\<open>Inr\<close>).
\<close>

datatype promise = Resolved | Rejected js_error

definition retryPromise :: "event \<Rightarrow> js_error + promise" where
  "retryPromise event =
     (let tryAgain = False
      in if tryAgain then Inl (Error ''Retrying...'')
         else Inr (Rejected (Error ''Not retrying...'')))"

definition retryCallback :: "event \<Rightarrow> effect list" where
  "retryCallback event =
     (let tryAgain = False;
          err = Error ''Error!''
      in if tryAgain
         then [Console_error (''Retrying: '' @ error_toString err), Callback (Some err)]
         else [Console_error (''Not retrying: '' @ error_toString err), Callback None])"

section \<open>Values of the computations\<close>

lemma lightComputation_value: "lightComputation = Inr 45"
  by (simp add: lightComputation_def)

lemma heavyComputation_value: "heavyComputation = Inr 362880"
  by (simp add: heavyComputation_def)

lemma int_toString_45: "int_toString 45 = ''45''"
  by (simp add: int_toString_def nat_toString.simps digit_char_def)

lemma int_toString_362880: "int_toString 362880 = ''362880''"
  by (simp add: int_toString_def nat_toString.simps digit_char_def)

lemma int_toString_5000: "int_toString 5000 = ''5000''"
  by (simp add: int_toString_def nat_toString.simps digit_char_def)

lemma int_toString_15000: "int_toString 15000 = ''15000''"
  by (simp add: int_toString_def nat_toString.simps digit_char_def)

section \<open>Cold start and the scope handlers\<close>

lemma cold_start_value:
  "cold_start = Inr \<lparr> instanceVar = 362880, nonLazyGlobal = 45, lazyGlobal = None,
      agent = \<lparr> keepAlive = True \<rparr>,
      computed = [(''instanceVar'', HeavyComputation), (''nonLazyGlobal'', LightComputation)] \<rparr>"
  by (simp add: cold_start_def heavyComputation_value fileWideComputation_def lightComputation_value)

lemma scopeDemo_run:
  "scopeDemo env =
     Inr (env \<lparr> computed := computed env @ [(''functionVar'', LightComputation)] \<rparr>,
          ''Per instance: '' @ int_toString (instanceVar env) @ '', per function: 45'')"
  by (simp add: scopeDemo_def lightComputation_value int_toString_45)

lemma lazyGlobals_first:
  "\<not> truthy (lazyGlobal env) \<Longrightarrow>
   lazyGlobals env =
     Inr (env \<lparr> lazyGlobal := Some 362880,
                computed := computed env @ [(''lazyGlobal'', HeavyComputation)] \<rparr>,
          ''Lazy global: 362880, non-lazy global: '' @ int_toString (nonLazyGlobal env))"
  by (simp add: lazyGlobals_def functionSpecificComputation_def heavyComputation_value
      int_toString_362880)

lemma lazyGlobals_again:
  "truthy (lazyGlobal env) \<Longrightarrow>
   lazyGlobals env =
     Inr (env, ''Lazy global: '' @ global_toString (lazyGlobal env) @
               '', non-lazy global: '' @ int_toString (nonLazyGlobal env))"
  by (simp add: lazyGlobals_def)

lemma invoke_instanceVar:
  "\<exists>env' body. invoke i env = Inr (env', body) \<and> instanceVar env' = instanceVar env \<and>
     computed_for ''instanceVar'' env' = computed_for ''instanceVar'' env"
proof (cases i)
  case ScopeDemo
  then show ?thesis by (simp add: scopeDemo_run computed_for_def)
next
  case LazyGlobals
  then show ?thesis
    by (cases "truthy (lazyGlobal env)")
       (simp_all add: lazyGlobals_first lazyGlobals_again computed_for_def)
qed

lemma invoke_all_instanceVar:
  "\<exists>env' bodies. invoke_all env is = Inr (env', bodies) \<and> instanceVar env' = instanceVar env \<and>
     computed_for ''instanceVar'' env' = computed_for ''instanceVar'' env"
proof (induction "is" arbitrary: env)
  case Nil
  show ?case by simp
next
  case (Cons i "is")
  obtain env1 body where 1: "invoke i env = Inr (env1, body)"
    "instanceVar env1 = instanceVar env"
    "computed_for ''instanceVar'' env1 = computed_for ''instanceVar'' env"
    using invoke_instanceVar by blast
  obtain env2 bodies where 2: "invoke_all env1 is = Inr (env2, bodies)"
    "instanceVar env2 = instanceVar env1"
    "computed_for ''instanceVar'' env2 = computed_for ''instanceVar'' env1"
    using Cons.IH by blast
  from 1 2 show ?case by simp
qed

lemma invoke_all_lazyGlobal:
  assumes "(lazyGlobal env = None \<and> computed_for ''lazyGlobal'' env = 0) \<or>
           (lazyGlobal env = Some 362880 \<and> computed_for ''lazyGlobal'' env = 1)"
  shows "\<exists>env' bodies. invoke_all env is = Inr (env', bodies) \<and>
     lazyGlobal env' = (if LazyGlobals \<in> set is then Some 362880 else lazyGlobal env) \<and>
     computed_for ''lazyGlobal'' env' =
       (if LazyGlobals \<in> set is then 1 else computed_for ''lazyGlobal'' env)"
  using assms
proof (induction "is" arbitrary: env)
  case Nil
  show ?case by simp
next
  case (Cons i "is")
  show ?case
  proof (cases i)
    case ScopeDemo
    let ?env1 = "env \<lparr> computed := computed env @ [(''functionVar'', LightComputation)] \<rparr>"
    have same: "lazyGlobal ?env1 = lazyGlobal env"
      "computed_for ''lazyGlobal'' ?env1 = computed_for ''lazyGlobal'' env"
      by (simp_all add: computed_for_def)
    have "(lazyGlobal ?env1 = None \<and> computed_for ''lazyGlobal'' ?env1 = 0) \<or>
          (lazyGlobal ?env1 = Some 362880 \<and> computed_for ''lazyGlobal'' ?env1 = 1)"
      using Cons.prems same by simp
    from Cons.IH [OF this] obtain env' bodies where
      r: "invoke_all ?env1 is = Inr (env', bodies)"
      "lazyGlobal env' = (if LazyGlobals \<in> set is then Some 362880 else lazyGlobal ?env1)"
      "computed_for ''lazyGlobal'' env' =
         (if LazyGlobals \<in> set is then 1 else computed_for ''lazyGlobal'' ?env1)"
      by blast
    show ?thesis
      using ScopeDemo r(1) r(2) r(3) same by (simp add: scopeDemo_run)
  next
    case LazyGlobals
    have "\<exists>env1 body. lazyGlobals env = Inr (env1, body) \<and>
      lazyGlobal env1 = Some 362880 \<and> computed_for ''lazyGlobal'' env1 = 1"
    proof (cases "truthy (lazyGlobal env)")
      case True
      then have "lazyGlobal env \<noteq> None" by (cases "lazyGlobal env") simp_all
      with Cons.prems True show ?thesis
        by (simp add: lazyGlobals_again)
    next
      case False
      then have "lazyGlobal env = None" using Cons.prems by auto
      with Cons.prems False show ?thesis
        by (simp add: lazyGlobals_first computed_for_def)
    qed
    then obtain env1 body where 1: "lazyGlobals env = Inr (env1, body)"
      "lazyGlobal env1 = Some 362880" "computed_for ''lazyGlobal'' env1 = 1"
      by blast
    have "(lazyGlobal env1 = None \<and> computed_for ''lazyGlobal'' env1 = 0) \<or>
          (lazyGlobal env1 = Some 362880 \<and> computed_for ''lazyGlobal'' env1 = 1)"
      using 1 by simp
    from Cons.IH [OF this] obtain env' bodies where
      r: "invoke_all env1 is = Inr (env', bodies)"
      "lazyGlobal env' = (if LazyGlobals \<in> set is then Some 362880 else lazyGlobal env1)"
      "computed_for ''lazyGlobal'' env' =
         (if LazyGlobals \<in> set is then 1 else computed_for ''lazyGlobal'' env1)"
      by blast
    show ?thesis
      using LazyGlobals 1 r by simp
  qed
qed

lemma invoke_body:
  assumes "instanceVar env = 362880" "nonLazyGlobal env = 45"
    "lazyGlobal env = None \<or> lazyGlobal env = Some 362880"
  shows "\<exists>env'. invoke i env =
      Inr (env', case i of ScopeDemo \<Rightarrow> ''Per instance: 362880, per function: 45''
                 | LazyGlobals \<Rightarrow> ''Lazy global: 362880, non-lazy global: 45'') \<and>
      instanceVar env' = 362880 \<and> nonLazyGlobal env' = 45 \<and>
      (lazyGlobal env' = None \<or> lazyGlobal env' = Some 362880)"
proof (cases i)
  case ScopeDemo
  with assms show ?thesis
    by (simp add: scopeDemo_run int_toString_362880)
next
  case LazyGlobals
  show ?thesis
  proof (cases "truthy (lazyGlobal env)")
    case True
    then have "lazyGlobal env = Some 362880" using assms(3) by auto
    with True LazyGlobals assms show ?thesis
      by (simp add: lazyGlobals_again int_toString_362880 int_toString_45)
  next
    case False
    with LazyGlobals assms show ?thesis
      by (simp add: lazyGlobals_first int_toString_45)
  qed
qed

lemma invoke_all_bodies:
  assumes "instanceVar env = 362880" "nonLazyGlobal env = 45"
    "lazyGlobal env = None \<or> lazyGlobal env = Some 362880"
  shows "\<exists>env'. invoke_all env is =
      Inr (env', map (\<lambda>i. case i of
                            ScopeDemo \<Rightarrow> ''Per instance: 362880, per function: 45''
                          | LazyGlobals \<Rightarrow> ''Lazy global: 362880, non-lazy global: 45'') is)"
  using assms
proof (induction "is" arbitrary: env)
  case Nil
  show ?case by simp
next
  case (Cons i "is")
  from invoke_body [OF Cons.prems, of i] obtain env1 where
    1: "invoke i env =
      Inr (env1, case i of ScopeDemo \<Rightarrow> ''Per instance: 362880, per function: 45''
                 | LazyGlobals \<Rightarrow> ''Lazy global: 362880, non-lazy global: 45'')"
    and inv: "instanceVar env1 = 362880" "nonLazyGlobal env1 = 45"
      "lazyGlobal env1 = None \<or> lazyGlobal env1 = Some 362880"
    by blast
  from Cons.IH [OF inv] obtain env2 where
    2: "invoke_all env1 is =
      Inr (env2, map (\<lambda>i. case i of
                            ScopeDemo \<Rightarrow> ''Per instance: 362880, per function: 45''
                          | LazyGlobals \<Rightarrow> ''Lazy global: 362880, non-lazy global: 45'') is)"
    by blast
  from 1 2 show ?case by simp
qed

lemma invoke_nonLazyGlobal:
  "invoke i env = Inr (env', body) \<Longrightarrow> nonLazyGlobal env' = nonLazyGlobal env"
proof (cases i)
  case ScopeDemo
  assume "invoke i env = Inr (env', body)"
  with ScopeDemo show ?thesis by (auto simp add: scopeDemo_run)
next
  case LazyGlobals
  assume "invoke i env = Inr (env', body)"
  with LazyGlobals show ?thesis
    by (cases "truthy (lazyGlobal env)")
       (auto simp add: lazyGlobals_first lazyGlobals_again)
qed

lemma invoke_all_nonLazyGlobal:
  "invoke_all env is = Inr (env', bodies) \<Longrightarrow> nonLazyGlobal env' = nonLazyGlobal env"
proof (induction "is" arbitrary: env bodies)
  case Nil
  then show ?case by simp
next
  case (Cons i "is")
  from Cons.prems obtain env1 body bodies1 where
    1: "invoke i env = Inr (env1, body)" and 2: "invoke_all env1 is = Inr (env', bodies1)"
    by (auto split: sum.splits prod.splits)
  from Cons.IH [OF 2] invoke_nonLazyGlobal [OF 1] show ?case by simp
qed

text \<open>
  C7: \<^verbatim>\<open>instanceVar\<close> is computed exactly once, at cold start. After any sequence of
  invocations on the environment it holds the value \<^verbatim>\<open>heavyComputation\<close> returned at
  cold start and the log has exactly one computation for it; \<^verbatim>\<open>scopeDemo\<close> reads that
  value into its response and runs only the per-call computation.
\<close>

theorem instanceVar_computed_once:
  "\<exists>v. heavyComputation = Inr v \<and>
     (\<exists>env0. cold_start = Inr env0 \<and> instanceVar env0 = v \<and>
        computed_for ''instanceVar'' env0 = 1) \<and>
     (\<forall>is. \<exists>env bodies.
      serve is = Inr (env, bodies) \<and>
      instanceVar env = v \<and>
      computed_for ''instanceVar'' env = 1 \<and>
      (\<exists>env'. scopeDemo env =
          Inr (env', ''Per instance: '' @ int_toString v @ '', per function: 45'') \<and>
        instanceVar env' = v \<and>
        computed env' = computed env @ [(''functionVar'', LightComputation)]))"
proof (rule exI [of _ 362880], intro conjI allI)
  show "heavyComputation = Inr 362880"
    by (rule heavyComputation_value)
next
  show "\<exists>env0. cold_start = Inr env0 \<and> instanceVar env0 = 362880 \<and>
        computed_for ''instanceVar'' env0 = 1"
    by (simp add: cold_start_value computed_for_def)
next
  fix "is"
  let ?env0 = "\<lparr> instanceVar = 362880, nonLazyGlobal = 45, lazyGlobal = None,
      agent = \<lparr> keepAlive = True \<rparr>,
      computed = [(''instanceVar'', HeavyComputation), (''nonLazyGlobal'', LightComputation)] \<rparr>"
  obtain env bodies where r: "invoke_all ?env0 is = Inr (env, bodies)"
    "instanceVar env = instanceVar ?env0"
    "computed_for ''instanceVar'' env = computed_for ''instanceVar'' ?env0"
    using invoke_all_instanceVar by blast
  have "serve is = Inr (env, bodies)"
    using r(1) by (simp add: serve_def cold_start_value)
  moreover have "instanceVar env = 362880" using r(2) by simp
  moreover have "computed_for ''instanceVar'' env = 1"
    using r(3) by (simp add: computed_for_def)
  ultimately show "\<exists>env bodies.
      serve is = Inr (env, bodies) \<and>
      instanceVar env = 362880 \<and>
      computed_for ''instanceVar'' env = 1 \<and>
      (\<exists>env'. scopeDemo env =
          Inr (env', ''Per instance: '' @ int_toString 362880 @ '', per function: 45'') \<and>
        instanceVar env' = 362880 \<and>
        computed env' = computed env @ [(''functionVar'', LightComputation)])"
    by (simp add: scopeDemo_run)
qed

text \<open>
  C8: \<^verbatim>\<open>lazyGlobal\<close> is \<^verbatim>\<open>undefined\<close> until \<^verbatim>\<open>lazyGlobals\<close> is first invoked; from the
  first invocation on it holds the computed value, and the log has exactly one
  computation for it however many invocations follow. Every invocation of
  \<^verbatim>\<open>lazyGlobals\<close> in the sequence, and one more after it, answers with that value; the
  one after it runs the computation only when the sequence had no invocation of
  \<^verbatim>\<open>lazyGlobals\<close>, and otherwise leaves the log as it is.
\<close>

theorem lazyGlobal_initialised_once:
  "\<exists>env bodies.
      serve is = Inr (env, bodies) \<and>
      lazyGlobal env = (if LazyGlobals \<in> set is then Some 362880 else None) \<and>
      computed_for ''lazyGlobal'' env = (if LazyGlobals \<in> set is then 1 else 0) \<and>
      bodies = map (\<lambda>i. case i of
                            ScopeDemo \<Rightarrow> ''Per instance: 362880, per function: 45''
                          | LazyGlobals \<Rightarrow> ''Lazy global: 362880, non-lazy global: 45'') is \<and>
      (\<exists>env'. lazyGlobals env =
          Inr (env', ''Lazy global: 362880, non-lazy global: 45'') \<and>
        lazyGlobal env' = Some 362880 \<and>
        computed_for ''lazyGlobal'' env' = 1 \<and>
        computed env' =
          (if LazyGlobals \<in> set is then computed env
           else computed env @ [(''lazyGlobal'', HeavyComputation)]))"
proof -
  let ?env0 = "\<lparr> instanceVar = 362880, nonLazyGlobal = 45, lazyGlobal = None,
      agent = \<lparr> keepAlive = True \<rparr>,
      computed = [(''instanceVar'', HeavyComputation), (''nonLazyGlobal'', LightComputation)] \<rparr>"
  let ?expected = "map (\<lambda>i. case i of
                            ScopeDemo \<Rightarrow> ''Per instance: 362880, per function: 45''
                          | LazyGlobals \<Rightarrow> ''Lazy global: 362880, non-lazy global: 45'') is"
  have "(lazyGlobal ?env0 = None \<and> computed_for ''lazyGlobal'' ?env0 = 0) \<or>
        (lazyGlobal ?env0 = Some 362880 \<and> computed_for ''lazyGlobal'' ?env0 = 1)"
    by (simp add: computed_for_def)
  from invoke_all_lazyGlobal [OF this, of "is"] obtain env bodies where
    r: "invoke_all ?env0 is = Inr (env, bodies)"
    "lazyGlobal env = (if LazyGlobals \<in> set is then Some 362880 else lazyGlobal ?env0)"
    "computed_for ''lazyGlobal'' env =
       (if LazyGlobals \<in> set is then 1 else computed_for ''lazyGlobal'' ?env0)"
    by blast
  have "\<exists>env2. invoke_all ?env0 is = Inr (env2, ?expected)"
    by (rule invoke_all_bodies) simp_all
  with r(1) have sent_bodies: "bodies = ?expected"
    by auto
  have nonLazy: "nonLazyGlobal env = 45"
    using invoke_all_nonLazyGlobal [OF r(1)] by simp
  have served: "serve is = Inr (env, bodies)"
    using r(1) by (simp add: serve_def cold_start_value)
  have slot: "lazyGlobal env = (if LazyGlobals \<in> set is then Some 362880 else None)"
    using r(2) by simp
  have logged: "computed_for ''lazyGlobal'' env = (if LazyGlobals \<in> set is then 1 else 0)"
    using r(3) by (simp add: computed_for_def)
  have again: "\<exists>env'. lazyGlobals env =
          Inr (env', ''Lazy global: 362880, non-lazy global: 45'') \<and>
        lazyGlobal env' = Some 362880 \<and>
        computed_for ''lazyGlobal'' env' = 1 \<and>
        computed env' =
          (if LazyGlobals \<in> set is then computed env
           else computed env @ [(''lazyGlobal'', HeavyComputation)])"
  proof (cases "LazyGlobals \<in> set is")
    case True
    with slot have cached: "lazyGlobal env = Some 362880" by simp
    then have "truthy (lazyGlobal env)" by simp
    from lazyGlobals_again [OF this] cached nonLazy logged True show ?thesis
      by (simp add: int_toString_362880 int_toString_45)
  next
    case False
    with slot have "lazyGlobal env = None" by simp
    then have "\<not> truthy (lazyGlobal env)" by simp
    from lazyGlobals_first [OF this] nonLazy logged False show ?thesis
      by (simp add: int_toString_45 computed_for_def)
  qed
  from served slot logged sent_bodies again show ?thesis by blast
qed

text \<open>
  C9: the heavy computation is the product \<open>362880\<close> and the light one the sum \<open>45\<close>
  of the numbers 1 to 9; in any sequence of invocations on an environment every
  \<^verbatim>\<open>scopeDemo\<close> answers \<^verbatim>\<open>Per instance: 362880, per function: 45\<close> and every
  \<^verbatim>\<open>lazyGlobals\<close> answers \<^verbatim>\<open>Lazy global: 362880, non-lazy global: 45\<close>.
\<close>

theorem scopeDemo_lazyGlobals_bodies:
  "heavyComputation = Inr 362880 \<and> lightComputation = Inr 45 \<and>
   (\<exists>env. serve is =
      Inr (env, map (\<lambda>i. case i of
                            ScopeDemo \<Rightarrow> ''Per instance: 362880, per function: 45''
                          | LazyGlobals \<Rightarrow> ''Lazy global: 362880, non-lazy global: 45'') is))"
proof -
  let ?env0 = "\<lparr> instanceVar = 362880, nonLazyGlobal = 45, lazyGlobal = None,
      agent = \<lparr> keepAlive = True \<rparr>,
      computed = [(''instanceVar'', HeavyComputation), (''nonLazyGlobal'', LightComputation)] \<rparr>"
  have "\<exists>env'. invoke_all ?env0 is =
      Inr (env', map (\<lambda>i. case i of
                            ScopeDemo \<Rightarrow> ''Per instance: 362880, per function: 45''
                          | LazyGlobals \<Rightarrow> ''Lazy global: 362880, non-lazy global: 45'') is)"
    by (rule invoke_all_bodies) simp_all
  then show ?thesis
    by (simp add: serve_def cold_start_value heavyComputation_value lightComputation_value)
qed

section \<open>The agent handlers\<close>

lemma ephemeralAgent_on_issued: "issued (ephemeralAgent_on ev x) = issued x"
  by (cases ev) (simp_all split: option.splits)

lemma cachedAgent_on_issued: "issued (cachedAgent_on ev x) = issued x"
  by (cases ev) (simp_all split: option.splits)

lemma ephemeralAgent_fold_issued:
  "issued (foldl (\<lambda>x ev. ephemeralAgent_on ev x) x transport) = issued x"
  by (induction transport arbitrary: x) (simp_all add: ephemeralAgent_on_issued)

lemma cachedAgent_fold_issued:
  "issued (foldl (\<lambda>x ev. cachedAgent_on ev x) x transport) = issued x"
  by (induction transport arbitrary: x) (simp_all add: cachedAgent_on_issued)

lemma agents_on_agree:
  assumes "rawData x = rawData y" "sent x = sent y"
  shows "rawData (ephemeralAgent_on ev x) = rawData (cachedAgent_on ev y) \<and>
         sent (ephemeralAgent_on ev x) = sent (cachedAgent_on ev y)"
  using assms by (cases ev) (simp_all split: option.splits)

lemma agents_fold_agree:
  assumes "rawData x = rawData y" "sent x = sent y"
  shows "rawData (foldl (\<lambda>x ev. ephemeralAgent_on ev x) x transport) =
         rawData (foldl (\<lambda>x ev. cachedAgent_on ev x) y transport) \<and>
         sent (foldl (\<lambda>x ev. ephemeralAgent_on ev x) x transport) =
         sent (foldl (\<lambda>x ev. cachedAgent_on ev x) y transport)"
  using assms
proof (induction transport arbitrary: x y)
  case Nil
  then show ?case by simp
next
  case (Cons ev transport)
  from agents_on_agree [OF Cons.prems, of ev]
  have "rawData (ephemeralAgent_on ev x) = rawData (cachedAgent_on ev y)"
    "sent (ephemeralAgent_on ev x) = sent (cachedAgent_on ev y)"
    by simp_all
  from Cons.IH [OF this] show ?case by simp
qed

text \<open>
  C4: when the transport delivers the response, the chunks \<^verbatim>\<open>ab\<close> and \<^verbatim>\<open>cd\<close> and then
  the end of the stream, both handlers send status 200 with the body
  \<^verbatim>\<open>Data: abcd\<close>, and nothing is sent before the end of the stream.
\<close>

theorem agents_buffer_chunks:
  "sent (ephemeralAgent [Response, Data ''ab'', Data ''cd'', End]) = [(200, ''Data: abcd'')] \<and>
   sent (cachedAgent env [Response, Data ''ab'', Data ''cd'', End]) = [(200, ''Data: abcd'')] \<and>
   sent (ephemeralAgent [Response, Data ''ab'', Data ''cd'']) = [] \<and>
   sent (cachedAgent env [Response, Data ''ab'', Data ''cd'']) = [] \<and>
   sent (ephemeralAgent [Response, Data ''ab'']) = [] \<and>
   sent (cachedAgent env [Response, Data ''ab'']) = [] \<and>
   sent (ephemeralAgent [Response]) = [] \<and>
   sent (cachedAgent env [Response]) = []"
  by (simp add: ephemeralAgent_def cachedAgent_def)

text \<open>
  C5: when the request fails with an error whose message is \<^verbatim>\<open>boom\<close>, both handlers
  send status 500 with the body \<^verbatim>\<open>Error: boom\<close>; whatever the transport does, the one
  request of the invocation is the only one issued.
\<close>

theorem agents_transport_error:
  "sent (ephemeralAgent [Request_error (Error ''boom'')]) = [(500, ''Error: boom'')] \<and>
   sent (cachedAgent env [Request_error (Error ''boom'')]) = [(500, ''Error: boom'')] \<and>
   length (issued (ephemeralAgent [Request_error (Error ''boom'')])) = 1 \<and>
   length (issued (cachedAgent env [Request_error (Error ''boom'')])) = 1 \<and>
   length (issued (ephemeralAgent transport)) = 1 \<and>
   length (issued (cachedAgent env transport)) = 1"
  by (simp add: ephemeralAgent_def cachedAgent_def ephemeralAgent_fold_issued
      cachedAgent_fold_issued)

text \<open>
  C6, as amended: for every sequence of transport events the two handlers hold the
  same buffer and send the same statuses and bodies. Their requests have the same
  port and method; \<^verbatim>\<open>cachedAgent\<close> passes the agent of the environment where
  \<^verbatim>\<open>ephemeralAgent\<close> passes none, and its host and path are empty strings where
  \<^verbatim>\<open>ephemeralAgent\<close> has the placeholders \<^verbatim>\<open><HOST>\<close> and \<^verbatim>\<open><PATH>\<close>.
\<close>

theorem agents_same_responses:
  "sent (ephemeralAgent transport) = sent (cachedAgent env transport) \<and>
   rawData (ephemeralAgent transport) = rawData (cachedAgent env transport) \<and>
   issued (ephemeralAgent transport) =
     [\<lparr> host = ''<HOST>'', port = 80, path = ''<PATH>'', request_method = ''GET'',
        use_agent = None \<rparr>] \<and>
   issued (cachedAgent env transport) =
     [\<lparr> host = [], port = 80, path = [], request_method = ''GET'',
        use_agent = Some (agent env) \<rparr>]"
proof -
  have "rawData (ephemeralAgent transport) = rawData (cachedAgent env transport) \<and>
        sent (ephemeralAgent transport) = sent (cachedAgent env transport)"
    unfolding ephemeralAgent_def cachedAgent_def
    by (rule agents_fold_agree) simp_all
  then show ?thesis
    by (simp add: ephemeralAgent_def cachedAgent_def ephemeralAgent_fold_issued
        cachedAgent_fold_issued)
qed

text \<open>
  The agent is not the only difference between the two requests: the hosts differ.
\<close>

theorem agents_differ_in_host_counterexample:
  "map host (issued (ephemeralAgent [Response, End])) \<noteq>
   map host (issued (cachedAgent
      \<lparr> instanceVar = 362880, nonLazyGlobal = 45, lazyGlobal = None,
        agent = \<lparr> keepAlive = True \<rparr>,
        computed = [(''instanceVar'', HeavyComputation),
                    (''nonLazyGlobal'', LightComputation)] \<rparr>
      [Response, End]))"
  by (simp add: ephemeralAgent_def cachedAgent_def)

section \<open>The retry handlers\<close>

lemma avoidInfiniteRetries_fresh:
  assumes "\<not> number_gt (number_minus (Num Date_now) (Date_parse (timestamp event))) (Num 10000)"
  shows "avoidInfiniteRetries Date_now Date_parse event =
     [main_work event (number_minus (Num Date_now) (Date_parse (timestamp event)))]"
  using assms by (simp add: avoidInfiniteRetries_def Let_def)

text \<open>
  C3: an event whose age is above 10000 is dropped: \<^verbatim>\<open>avoidInfiniteRetries\<close> logs the
  drop, calls the callback with no argument and does none of its main work.
\<close>

theorem stale_event_dropped:
  assumes "Date_parse (timestamp event) = Num t" and "Date_now - t > 10000"
  shows "avoidInfiniteRetries Date_now Date_parse event =
           [Console_log (''Dropping event [object Object] with age '' @
                         int_toString (Date_now - t) @ '' ms.''),
            Callback None] \<and>
         main_work event a \<notin> set (avoidInfiniteRetries Date_now Date_parse event)"
  using assms
  by (simp add: avoidInfiniteRetries_def Let_def main_work_def event_toString_def)

theorem stale_event_dropped_witness:
  "(\<lambda>s. Num 0) (timestamp \<lparr> timestamp = ''1970-01-01T00:00:00.000Z'' \<rparr>) = Num 0 \<and>
   (15000::int) - 0 > 10000 \<and>
   avoidInfiniteRetries 15000 (\<lambda>s. Num 0) \<lparr> timestamp = ''1970-01-01T00:00:00.000Z'' \<rparr> =
     [Console_log ''Dropping event [object Object] with age 15000 ms.'', Callback None] \<and>
   main_work \<lparr> timestamp = ''1970-01-01T00:00:00.000Z'' \<rparr> (Num 15000)
     \<notin> set (avoidInfiniteRetries 15000 (\<lambda>s. Num 0)
                 \<lparr> timestamp = ''1970-01-01T00:00:00.000Z'' \<rparr>)"
proof -
  have parsed: "(\<lambda>s. Num 0) (timestamp \<lparr> timestamp = ''1970-01-01T00:00:00.000Z'' \<rparr>) = Num 0"
    by simp
  have old: "(15000::int) - 0 > 10000"
    by simp
  from stale_event_dropped [OF parsed old, where a = "Num 15000"] show ?thesis
    by (simp add: int_toString_15000 main_work_def)
qed

text \<open>
  C10: whatever the clock and the parsed timestamp are, also \<^verbatim>\<open>NaN\<close>,
  \<^verbatim>\<open>avoidInfiniteRetries\<close> never calls the callback with an error.
\<close>

theorem avoidInfiniteRetries_never_fails:
  "Callback (Some err) \<notin> set (avoidInfiniteRetries Date_now Date_parse event)"
  by (simp add: avoidInfiniteRetries_def Let_def main_work_def)

text \<open>
  C2: on an event of age 5000 \<^verbatim>\<open>avoidInfiniteRetries\<close> does its main work and stops
  there: the callback is not called.
\<close>

theorem fresh_event_no_callback:
  "avoidInfiniteRetries 15000
     (\<lambda>s. if s = ''1970-01-01T00:00:10.000Z'' then Num 10000 else NaN)
     \<lparr> timestamp = ''1970-01-01T00:00:10.000Z'' \<rparr> =
   [Console_log ''Processing event [object Object] with age 5000 ms.'']"
  by (simp add: avoidInfiniteRetries_def Let_def main_work_def event_toString_def
      int_toString_5000)

text \<open>
  C1: with \<^verbatim>\<open>tryAgain\<close> false, \<^verbatim>\<open>retryPromise\<close> returns a rejected promise while
  \<^verbatim>\<open>retryCallback\<close> calls the callback with no argument.
\<close>

theorem retry_flag_false_outcomes:
  "retryPromise event = Inr (Rejected (Error ''Not retrying...'')) \<and>
   retryCallback event = [Console_error ''Not retrying: Error: Error!'', Callback None]"
  by (simp add: retryPromise_def retryCallback_def)

end
